theory Spec2Isabelle
  imports Complex_Main
begin

section \<open>Python values, exceptions and name lookup\<close>

text \<open>
  The two modules verified here are \<^verbatim>\<open>src/c9c/runtime/aws.py\<close> (the older
  controller for the AWS runtime) and \<^verbatim>\<open>src/teal_lang/executors/awslambda.py\<close>
  (the Lambda entry points). Both are Python. Values that cross their interfaces
  (event payloads, results, data-stack entries, response bodies) are JSON-like.
\<close>

datatype pyval =
    PNone
  | PBool bool
  | PInt int
  | PStr string
  | PList "pyval list"
  | PDict "(string \<times> pyval) list"

text \<open>
  An exception is known by its class and by its string form (\<^verbatim>\<open>str(exc)\<close>).
\<close>

datatype pyexc = PyExc (exc_class: string) (exc_str: string)

definition quote :: string where
  "quote = [CHR 0x27]"

definition NameError :: "string \<Rightarrow> pyexc" where
  "NameError n = PyExc ''NameError'' (''name '' @ quote @ n @ quote @ '' is not defined'')"

definition IndexError :: pyexc where
  "IndexError = PyExc ''IndexError'' ''list index out of range''"

definition AssertionError :: pyexc where
  "AssertionError = PyExc ''AssertionError'' []"

definition py_Exception :: "string \<Rightarrow> pyexc" where
  "py_Exception msg = PyExc ''Exception'' msg"

text \<open>
  \<^verbatim>\<open>except Exception\<close> catches every exception except the three that derive from
  \<^verbatim>\<open>BaseException\<close> directly; a bare \<^verbatim>\<open>except:\<close> catches all of them.
\<close>

definition is_Exception :: "pyexc \<Rightarrow> bool" where
  "is_Exception e \<longleftrightarrow>
     exc_class e \<notin> set [''BaseException'', ''KeyboardInterrupt'', ''SystemExit'', ''GeneratorExit'']"

text \<open>
  A global name is looked up in the module's namespace and then in the builtins;
  a name bound in neither raises \<^verbatim>\<open>NameError\<close>. The builtins listed are the ones
  the two modules refer to.
\<close>

definition py_builtins :: "string list" where
  "py_builtins = [''Exception'', ''KeyError'', ''TypeError'', ''all'', ''dict'', ''int'',
     ''isinstance'', ''list'', ''property'', ''str'', ''super'']"

definition lookup_name :: "string list \<Rightarrow> string \<Rightarrow> pyexc + unit" where
  "lookup_name module_names n =
     (if n \<in> set module_names \<or> n \<in> set py_builtins then Inr () else Inl (NameError n))"


section \<open>The c9c AWS runtime: \<^verbatim>\<open>src/c9c/runtime/aws.py\<close>\<close>

subsection \<open>Session data\<close>

text \<open>
  The session tables live in \<^verbatim>\<open>aws_db\<close>, which is not among the sources; their
  shape is the one the module uses (\<^verbatim>\<open>ContinuationMap(machine_id, offset)\<close>,
  \<^verbatim>\<open>_data.resolved\<close>, \<^verbatim>\<open>_data.value\<close>, \<^verbatim>\<open>_data.chain\<close>, \<^verbatim>\<open>_data.continuations\<close>,
  \<^verbatim>\<open>machines[i].state\<close>, \<^verbatim>\<open>m.future_fk\<close>, \<^verbatim>\<open>m.is_top_level\<close>,
  \<^verbatim>\<open>session.finished\<close>, \<^verbatim>\<open>session.result\<close>). Thread ids, future ids and stack
  offsets are list positions, modelled as naturals.
\<close>

record ContinuationMap =
  c_machine_id :: nat
  c_offset :: nat

record FutureMap =
  f_resolved :: bool
  f_value :: pyval
  f_chain :: "nat option"
  f_continuations :: "ContinuationMap list"

record State =
  st_ip :: nat
  st_ds :: "pyval list"
  st_stopped :: bool

record MachineMap =
  m_machine_id :: nat
  m_state :: State
  m_probe_logs :: "string list"
  m_future_fk :: nat
  m_is_top_level :: bool

record Session =
  s_session_id :: string
  s_machines :: "MachineMap list"
  s_futures :: "FutureMap list"
  s_finished :: bool
  s_result :: pyval

text \<open>
  Modelled from the spec: \<^verbatim>\<open>State.ds_set\<close> (class \<^verbatim>\<open>State\<close> is imported from
  \<^verbatim>\<open>..state\<close>, which is not among the sources). The spec gives the thread state
  the operation "set at an absolute offset" of the data stack; a position outside
  the stack raises, as a Python list assignment does.
\<close>

definition ds_set :: "nat \<Rightarrow> pyval \<Rightarrow> State \<Rightarrow> pyexc + State" where
  "ds_set off v st =
     (if off < length (st_ds st) then Inr (st\<lparr>st_ds := (st_ds st)[off := v]\<rparr>)
      else Inl IndexError)"

text \<open>
  Modelled from the spec: \<^verbatim>\<open>aws_db.get_future\<close> (module \<^verbatim>\<open>aws_db\<close> is not among
  the sources): \<^verbatim>\<open>get_future(session, future-id)\<close> returns the future stored under
  that id in the session.
\<close>

definition get_future :: "Session \<Rightarrow> nat \<Rightarrow> pyexc + FutureMap" where
  "get_future s fid =
     (if fid < length (s_futures s) then Inr (s_futures s ! fid) else Inl IndexError)"

subsection \<open>The Lambda client\<close>

text \<open>
  \<^verbatim>\<open>client.invoke\<close> is the only effect outside the session. The service's answer
  to a request is a parameter of the model; every request made is appended to the
  list of requests of the world.
\<close>

record invoke_request =
  FunctionName :: string
  InvocationType :: string
  Payload :: "(string \<times> pyval) list"

record invoke_response =
  StatusCode :: int
  FunctionError :: "string option"
  PayloadRead :: string

type_synonym lambda_client = "invoke_request \<Rightarrow> invoke_response"

record world =
  w_session :: Session
  w_invoked :: "invoke_request list"

subsection \<open>The controller\<close>

text \<open>
  The fields of \<^verbatim>\<open>AwsController\<close> that belong to the worker itself. The session
  (\<^verbatim>\<open>self._session\<close>) is the shared record guarded by \<^verbatim>\<open>self.lock\<close> and is passed
  in the \<^typ>\<open>world\<close>. \<open>this_machine\<close> stands for the identity of the
  \<^verbatim>\<open>C9Machine\<close> object created by \<^verbatim>\<open>run_machine\<close>; the probe (logging only) is left
  out.
\<close>

record AwsController =
  executable_name :: string
  this_machine :: nat
  this_machine_id :: nat
  this_machine_future :: nat
  this_machine_is_top_level :: bool

text \<open>
  \<^verbatim>\<open>with_self_lock\<close> runs the method while holding \<^verbatim>\<open>self.lock\<close>, the lock of the
  session: the method is one indivisible step on the session. In the model a
  locked method is one function from world to world, and interleavings of workers
  are sequences of such steps.
\<close>

definition with_self_lock :: "(world \<Rightarrow> pyexc + 'a) \<Rightarrow> world \<Rightarrow> pyexc + 'a" where
  "with_self_lock inst_method w = inst_method w"


text \<open>The request \<^verbatim>\<open>_run_machine_async\<close> sends for machine \<open>m\<close>.\<close>

definition async_request :: "AwsController \<Rightarrow> world \<Rightarrow> nat \<Rightarrow> invoke_request" where
  "async_request self w m =
     (let payload = [(''executable_name'', PStr (executable_name self)),
                     (''session_id'', PStr (s_session_id (w_session w))),
                     (''machine_id'', PInt (int m))]
      in \<lparr>FunctionName = ''c9run'', InvocationType = ''Event'', Payload = payload\<rparr>)"

definition run_machine_async :: "lambda_client \<Rightarrow> AwsController \<Rightarrow> nat \<Rightarrow> world \<Rightarrow> pyexc + world" where
  "run_machine_async client self m w =
     (let req = async_request self w m;
          res = client req;
          w' = w\<lparr>w_invoked := w_invoked w @ [req]\<rparr>
      in if StatusCode res \<noteq> 202 \<or> FunctionError res \<noteq> None
         then Inl (py_Exception (''Invoke lambda failed '' @ PayloadRead res))
         else Inr w')"

definition run_waiting_machine ::
  "lambda_client \<Rightarrow> AwsController \<Rightarrow> nat \<Rightarrow> nat \<Rightarrow> pyval \<Rightarrow> world \<Rightarrow> pyexc + world" where
  "run_waiting_machine client self machine_id offset v w =
     (case with_self_lock (\<lambda>w.
             let s = w_session w in
             if machine_id < length (s_machines s) then
               let mm = s_machines s ! machine_id in
               case ds_set offset v (m_state mm) of
                 Inl e \<Rightarrow> Inl e
               | Inr st \<Rightarrow>
                   Inr (w\<lparr>w_session := s\<lparr>s_machines :=
                          (s_machines s)[machine_id := mm\<lparr>m_state := st\<lparr>st_stopped := False\<rparr>\<rparr>]\<rparr>\<rparr>)
             else Inl IndexError) w of
        Inl e \<Rightarrow> Inl e
      | Inr w1 \<Rightarrow> run_machine_async client self machine_id w1)"

subsection \<open>Resolving a future\<close>

text \<open>
  \<^verbatim>\<open>AwsController.finish\<close>, as far as the session goes (\<^verbatim>\<open>self.result\<close> belongs to
  the worker).
\<close>

definition finish :: "pyval \<Rightarrow> world \<Rightarrow> world" where
  "finish res w = w\<lparr>w_session := (w_session w)\<lparr>s_finished := True, s_result := res\<rparr>\<rparr>"

definition FutureViolation :: pyexc where
  "FutureViolation = PyExc ''FutureViolation'' []"

text \<open>
  Modelled from the spec: step 3 of Chain-Resolve (\<^verbatim>\<open>chain_resolve\<close> is not among the
  sources), "for each (thread-id, offset) in F.continuations: write v into that
  thread's data stack at offset; clear its stopped flag; dispatch it". Each step
  is the callback \<^verbatim>\<open>run_waiting_machine\<close> of the source.
\<close>

fun schedule ::
  "lambda_client \<Rightarrow> AwsController \<Rightarrow> ContinuationMap list \<Rightarrow> pyval \<Rightarrow> world \<Rightarrow> pyexc + world" where
  "schedule client self [] v w = Inr w"
| "schedule client self (c # cs) v w =
     (case run_waiting_machine client self (c_machine_id c) (c_offset c) v w of
        Inl e \<Rightarrow> Inl e
      | Inr w' \<Rightarrow> schedule client self cs v w')"

text \<open>
  Modelled from the spec: step 2 of Chain-Resolve, "set F.value to v, F.resolved to
  true", with the continuations consumed ("on resolution every continuation is
  scheduled and the list becomes empty").
\<close>

definition mark_resolved :: "nat \<Rightarrow> pyval \<Rightarrow> world \<Rightarrow> world" where
  "mark_resolved fid v w =
     w\<lparr>w_session := (w_session w)\<lparr>s_futures := (s_futures (w_session w))
          [fid := (s_futures (w_session w) ! fid)\<lparr>f_value := v, f_resolved := True,
                                                 f_continuations := []\<rparr>]\<rparr>\<rparr>"

text \<open>Modelled from the spec: "F owns the top-level thread" (step 5 of Chain-Resolve).\<close>

definition owns_top_level :: "Session \<Rightarrow> nat \<Rightarrow> bool" where
  "owns_top_level s fid = list_ex (\<lambda>m. m_future_fk m = fid \<and> m_is_top_level m) (s_machines s)"

text \<open>The number of futures not yet resolved: it goes down with every recursive call below.\<close>

definition unresolved :: "world \<Rightarrow> nat" where
  "unresolved w = length (filter (\<lambda>d. \<not> f_resolved d) (s_futures (w_session w)))"

text \<open>
  Modelled from the spec: \<^verbatim>\<open>chain_resolve\<close>, which \<^verbatim>\<open>set_machine_result\<close> calls with
  the callback \<^verbatim>\<open>run_waiting_machine\<close>; it is defined in the machine module, which is
  not among the sources. The spec (Chain-Resolve) has it work under the session
  lock, on future \<open>F\<close> and value \<open>v\<close>: (1) a resolved \<open>F\<close> is a protocol error;
  (2) set the value and the resolved flag; (3) schedule every continuation of
  \<open>F\<close>; (4) if \<open>F\<close> has a chain target, recurse on it with \<open>v\<close>, tolerating a target
  already resolved with \<open>v\<close> and failing on one resolved otherwise; (5) if \<open>F\<close>
  owns the top-level thread, mark the session finished with \<open>v\<close>. Every recursive
  call finds one more future resolved, so the recursion ends, also on a cyclic
  chain.
\<close>

function chain_resolve ::
  "lambda_client \<Rightarrow> AwsController \<Rightarrow> nat \<Rightarrow> pyval \<Rightarrow> world \<Rightarrow> pyexc + world" where
  "chain_resolve client self fid v w =
     (case get_future (w_session w) fid of
        Inl e \<Rightarrow> Inl e
      | Inr d \<Rightarrow>
          if f_resolved d then Inl FutureViolation
          else
            (case schedule client self (f_continuations d) v (mark_resolved fid v w) of
               Inl e \<Rightarrow> Inl e
             | Inr w1 \<Rightarrow>
                 (case (case f_chain d of
                          None \<Rightarrow> Inr w1
                        | Some g \<Rightarrow>
                            (case get_future (w_session w1) g of
                               Inl e \<Rightarrow> Inl e
                             | Inr t \<Rightarrow>
                                 if f_resolved t
                                 then (if f_value t = v then Inr w1 else Inl FutureViolation)
                                 else chain_resolve client self g v w1)) of
                    Inl e \<Rightarrow> Inl e
                  | Inr w2 \<Rightarrow>
                      Inr (if owns_top_level (w_session w2) fid then finish v w2 else w2))))"
  by pat_completeness auto
termination
proof (relation "measure (\<lambda>(client, self, fid, v, w). unresolved w)")
  show "wf (measure (\<lambda>(client, self, fid, v, w). unresolved w))" by simp
next
  fix client :: lambda_client and self :: AwsController and fid :: nat and v :: pyval
    and w w1 :: world and d t :: FutureMap and g :: nat
  assume gf: "get_future (w_session w) fid = Inr d"
    and nr: "\<not> f_resolved d"
    and sch: "schedule client self (f_continuations d) v (mark_resolved fid v w) = Inr w1"
  have run: "\<And>a b u u'. run_waiting_machine client self a b v u = Inr u'
               \<Longrightarrow> s_futures (w_session u') = s_futures (w_session u)"
    by (auto simp: run_waiting_machine_def with_self_lock_def run_machine_async_def Let_def
        split: sum.splits if_splits)
  have keep: "\<And>u u'. schedule client self cs v u = Inr u'
               \<Longrightarrow> s_futures (w_session u') = s_futures (w_session u)" for cs
  proof (induction cs)
    case Nil
    then show ?case by simp
  next
    case (Cons c cs)
    then show ?case by (auto split: sum.splits dest: run)
  qed
  have lt: "fid < length (s_futures (w_session w))" and d: "d = s_futures (w_session w) ! fid"
    using gf by (auto simp: get_future_def split: if_splits)
  have "s_futures (w_session w1) = (s_futures (w_session w))
          [fid := d\<lparr>f_value := v, f_resolved := True, f_continuations := []\<rparr>]"
    using keep [OF sch] d by (simp add: mark_resolved_def)
  moreover have "length (filter (\<lambda>x. \<not> f_resolved x) (xs[i := y])) < length (filter (\<lambda>x. \<not> f_resolved x) xs)"
    if "i < length xs" "\<not> f_resolved (xs ! i)" "f_resolved y" for xs :: "FutureMap list" and i y
    using that
  proof (induction xs arbitrary: i)
    case Nil
    then show ?case by simp
  next
    case (Cons x xs)
    show ?case
    proof (cases i)
      case 0
      with Cons.prems show ?thesis by (simp add: less_Suc_eq_le)
    next
      case (Suc j)
      with Cons.prems have "length (filter (\<lambda>x. \<not> f_resolved x) (xs[j := y]))
                              < length (filter (\<lambda>x. \<not> f_resolved x) xs)"
        by (intro Cons.IH) auto
      with Suc show ?thesis by simp
    qed
  qed
  ultimately have "unresolved w1 < unresolved w"
    using lt nr d by (simp add: unresolved_def)
  then show "((client, self, g, v, w1), (client, self, fid, v, w))
               \<in> measure (\<lambda>(client, self, fid, v, w). unresolved w)"
    by simp
qed


declare chain_resolve.simps [simp del]

subsection \<open>\<^verbatim>\<open>get_or_wait\<close> in the spec's words\<close>



subsection \<open>Interleavings of locked operations\<close>





subsection \<open>Names of the module\<close>

text \<open>
  The names bound at module level of \<^verbatim>\<open>aws.py\<close>: its imports (lines 53 to 68)
  and its top-level classes and functions.
\<close>

definition aws_module_names :: "string list" where
  "aws_module_names = [''json'', ''time'', ''uuid'', ''traceback'', ''warnings'', ''wraps'',
     ''List'', ''Tuple'', ''boto3'', ''compiler'', ''C9Machine'', ''ChainedFuture'',
     ''Controller'', ''Probe'', ''State'', ''db'', ''ContinuationMap'', ''FutureMap'',
     ''MachineMap'', ''get_lambda_client'', ''AwsProbe'', ''AwsFuture'', ''with_self_lock'',
     ''AwsController'', ''run'', ''run_existing'', ''get_entrypoint'']"

text \<open>
  \<^verbatim>\<open>run_existing\<close> first evaluates the name \<^verbatim>\<open>Session\<close>. What the rest of the body
  does (load the session, build the controller, fetch the machine and run it) is
  the parameter \<open>rest\<close>, applied only once the name has been found.
\<close>

definition run_existing ::
  "(string \<Rightarrow> nat \<Rightarrow> 'w \<Rightarrow> pyexc + 'w) \<Rightarrow> string \<Rightarrow> 'e \<Rightarrow> string \<Rightarrow> nat \<Rightarrow> bool \<Rightarrow> 'w \<Rightarrow> pyexc + 'w" where
  "run_existing rest name executable session_id machine_id do_probe w =
     (case lookup_name aws_module_names ''Session'' of
        Inl e \<Rightarrow> Inl e
      | Inr _ \<Rightarrow> rest session_id machine_id w)"

text \<open>
  \<^verbatim>\<open>set_machine_result\<close> calls \<^verbatim>\<open>chain_resolve\<close> on the future of this machine,
  passing \<^verbatim>\<open>run_waiting_machine\<close> as the callback; the name \<^verbatim>\<open>chain_resolve\<close> is
  looked up in the same namespace.
\<close>

definition set_machine_result ::
  "lambda_client \<Rightarrow> AwsController \<Rightarrow> nat \<Rightarrow> pyval \<Rightarrow> world \<Rightarrow> pyexc + world" where
  "set_machine_result client self m v w =
     (if m \<noteq> this_machine self then Inl AssertionError
      else case lookup_name aws_module_names ''chain_resolve'' of
          Inl e \<Rightarrow> Inl e
        | Inr _ \<Rightarrow> chain_resolve client self (this_machine_future self) v w)"


section \<open>Dispatch to another worker\<close>

text \<open>
  \<^verbatim>\<open>LambdaRunner.run\<close> (\<^verbatim>\<open>src/c9c/runtime/executors/awslambda.py\<close>) and
  \<^verbatim>\<open>Invoker.invoke\<close> (\<^verbatim>\<open>src/teal_lang/executors/awslambda.py\<close>) ask the Lambda
  service to run a thread. Both return the exception raised, if any, and the
  requests made so far. \<open>runner_ref\<close> stands for the identity of the \<^verbatim>\<open>LambdaRunner\<close>
  object (\<^verbatim>\<open>assert runner is self\<close>). The client of \<^verbatim>\<open>Invoker\<close> is built by \<^verbatim>\<open>get_lambda_client\<close>
  with \<^verbatim>\<open>retries={"max_attempts": 0}\<close>, so one call of \<^verbatim>\<open>client.invoke\<close> is one
  request.
\<close>

record LambdaRunner =
  runner_ref :: nat
  fn_name :: string

definition LambdaRunner_run ::
  "lambda_client \<Rightarrow> LambdaRunner \<Rightarrow> nat \<Rightarrow> string \<Rightarrow> pyval \<Rightarrow> pyval \<Rightarrow> pyval \<Rightarrow> pyval \<Rightarrow>
     invoke_request list \<Rightarrow> pyexc option \<times> invoke_request list" where
  "LambdaRunner_run client self runner exe_name searchpath session_id machine_id do_probe reqs =
     (if runner \<noteq> runner_ref self then (Some AssertionError, reqs)
      else
        let payload = [(''lambda_name'', PStr (fn_name self)),
                       (''executable_name'', PStr exe_name),
                       (''searchpath'', searchpath),
                       (''session_id'', session_id),
                       (''machine_id'', machine_id),
                       (''do_probe'', do_probe)];
            req = \<lparr>FunctionName = fn_name self, InvocationType = ''Event'', Payload = payload\<rparr>;
            res = client req
        in if StatusCode res \<noteq> 202 \<or> FunctionError res \<noteq> None
           then (Some (py_Exception (''Invoke lambda failed '' @ PayloadRead res)), reqs @ [req])
           else (None, reqs @ [req]))"

definition Invoker_invoke ::
  "lambda_client \<Rightarrow> string \<Rightarrow> pyval \<Rightarrow> pyval \<Rightarrow>
     invoke_request list \<Rightarrow> pyexc option \<times> invoke_request list" where
  "Invoker_invoke client resume_fn_name session_id vmid reqs =
     (let event = [(''session_id'', session_id), (''vmid'', vmid)];
          req = \<lparr>FunctionName = resume_fn_name, InvocationType = ''Event'', Payload = event\<rparr>;
          res = client req
      in if StatusCode res \<noteq> 202 \<or> FunctionError res \<noteq> None
         then (Some (py_Exception (''Invoke lambda '' @ resume_fn_name @ '' failed '' @ PayloadRead res)),
               reqs @ [req])
         else (None, reqs @ [req]))"


section \<open>The Lambda entry points: \<^verbatim>\<open>src/teal_lang/executors/awslambda.py\<close>\<close>

subsection \<open>Events, responses and Python's tests\<close>

type_synonym event = "string \<rightharpoonup> pyval"

definition dict_get :: "event \<Rightarrow> string \<Rightarrow> pyval \<Rightarrow> pyval" where
  "dict_get ev k d = (case ev k of None \<Rightarrow> d | Some v \<Rightarrow> v)"

definition KeyError :: "string \<Rightarrow> pyexc" where
  "KeyError k = PyExc ''KeyError'' (quote @ k @ quote)"

definition dict_item :: "event \<Rightarrow> string \<Rightarrow> pyexc + pyval" where
  "dict_item ev k = (case ev k of None \<Rightarrow> Inl (KeyError k) | Some v \<Rightarrow> Inr v)"

fun truthy :: "pyval \<Rightarrow> bool" where
  "truthy PNone = False"
| "truthy (PBool b) = b"
| "truthy (PInt n) = (n \<noteq> 0)"
| "truthy (PStr s) = (s \<noteq> [])"
| "truthy (PList xs) = (xs \<noteq> [])"
| "truthy (PDict kvs) = (kvs \<noteq> [])"

definition TypeError :: pyexc where
  "TypeError = PyExc ''TypeError'' []"

definition ValueError :: pyexc where
  "ValueError = PyExc ''ValueError'' []"

text \<open>A value used as a number: an \<^verbatim>\<open>int\<close> or a \<^verbatim>\<open>bool\<close>; anything else raises \<^verbatim>\<open>TypeError\<close>.\<close>

fun number :: "pyval \<Rightarrow> pyexc + real" where
  "number (PInt n) = Inr (real_of_int n)"
| "number (PBool b) = Inr (if b then 1 else 0)"
| "number _ = Inl TypeError"

text \<open>\<^verbatim>\<open>xs[i]\<close> on a list of length \<open>n\<close>: the position read, counting a negative index from the end.\<close>

definition int_index :: "nat \<Rightarrow> int \<Rightarrow> pyexc + nat" where
  "int_index n i =
     (if 0 \<le> i \<and> i < int n then Inr (nat i)
      else if - int n \<le> i \<and> i < 0 then Inr (nat (int n + i))
      else Inl IndexError)"

fun py_index :: "nat \<Rightarrow> pyval \<Rightarrow> pyexc + nat" where
  "py_index n (PInt i) = int_index n i"
| "py_index n (PBool b) = int_index n (if b then 1 else 0)"
| "py_index n _ = Inl TypeError"

text \<open>Iterating a value in a comprehension.\<close>

fun py_iter :: "pyval \<Rightarrow> pyexc + pyval list" where
  "py_iter (PList xs) = Inr xs"
| "py_iter (PStr s) = Inr (map (\<lambda>c. PStr [c]) s)"
| "py_iter (PDict kvs) = Inr (map (\<lambda>kv. PStr (fst kv)) kvs)"
| "py_iter _ = Inl TypeError"

text \<open>
  A response of a handler. \<open>body\<close> holds the dictionary handed to \<^verbatim>\<open>json.dumps\<close>,
  in the order of the keyword arguments; its rendering as text is the library's.
\<close>

record response =
  statusCode :: int
  isBase64Encoded :: bool
  headers :: "(string \<times> pyval) list"
  body :: "(string \<times> pyval) list"

definition cors_headers :: "(string \<times> pyval) list" where
  "cors_headers = [(''Access-Control-Allow-Origin'', PStr ''*''),
                   (''Access-Control-Allow-Credentials'', PBool True)]"

definition success :: "(string \<times> pyval) list \<Rightarrow> response" where
  "success body_data =
     \<lparr>statusCode = 200, isBase64Encoded = False, headers = cors_headers, body = body_data\<rparr>"

definition fail :: "string \<Rightarrow> (string \<times> pyval) list \<Rightarrow> response" where
  "fail msg body_data =
     \<lparr>statusCode = 400, isBase64Encoded = False, headers = cors_headers,
      body = (''message'', PStr msg) # body_data\<rparr>"

subsection \<open>Sessions and the collaborators outside the sources\<close>

text \<open>
  The session model \<^verbatim>\<open>ddb_model\<close> is not among the sources; the fields are the ones
  the entry points use (\<^verbatim>\<open>session.session_id\<close>, \<^verbatim>\<open>session.executable\<close>,
  \<^verbatim>\<open>session.machines\<close>, \<^verbatim>\<open>m.stdout\<close>, \<^verbatim>\<open>m.exception\<close>) and the ones the spec gives a
  session (futures, finished flag, result).
\<close>

record Thread =
  t_state :: State
  t_stdout :: string
  t_exception :: "string option"

record TlSession =
  ts_session_id :: string
  ts_executable :: "string option"
  ts_machines :: "Thread list"
  ts_futures :: "FutureMap list"
  ts_finished :: bool
  ts_result :: pyval

type_synonym store = "string \<rightharpoonup> TlSession"

definition DoesNotExist :: pyexc where
  "DoesNotExist = PyExc ''DoesNotExist'' []"

text \<open>
  Modelled from the spec: \<^verbatim>\<open>db.Session.get\<close> (\<^verbatim>\<open>controllers/ddb_model.py\<close> is not
  among the sources). It loads the session stored under the id and raises
  \<^verbatim>\<open>DoesNotExist\<close> when "the session does not exist"; a key that is not a string
  names no session.
\<close>

fun Session_get :: "store \<Rightarrow> pyval \<Rightarrow> pyexc + TlSession" where
  "Session_get db (PStr k) = (case db k of None \<Rightarrow> Inl DoesNotExist | Some s \<Rightarrow> Inr s)"
| "Session_get db _ = Inl DoesNotExist"

text \<open>
  What a reload of the session finds: its finished flag and its result. Other
  workers write to the session between reloads, so what each reload finds is given
  by the environment.
\<close>

record view =
  v_finished :: bool
  v_result :: pyval

text \<open>
  The collaborators of the entry points that are not among the sources, and the
  environment: the parser and compiler (\<^verbatim>\<open>tealparser\<close>), saving a session, the
  controller's \<^verbatim>\<open>new_machine\<close>, one run of the VM (\<^verbatim>\<open>TlMachine(vmid, invoker).run()\<close>,
  which returns the exception it raised, if any, and the session as it left it;
  building the lock, the controller, the invoker and the machine raises nothing),
  the value of \<^verbatim>\<open>int(os.getenv("FIXED_TEAL_TIMEOUT", 5))\<close>, the session made by
  \<^verbatim>\<open>db.new_session()\<close>, the views found by the successive evaluations of
  \<^verbatim>\<open>controller.finished\<close>, and the successive readings of \<^verbatim>\<open>time.time()\<close>.
\<close>

record env =
  E_evaluate_toplevel :: "pyval \<Rightarrow> pyexc + pyval"
  E_make_exe :: "pyval \<Rightarrow> pyexc + pyval"
  E_serialise :: "pyval \<Rightarrow> pyexc + string"
  E_save :: "TlSession \<Rightarrow> pyexc option"
  E_read_exp :: "pyval \<Rightarrow> pyexc + pyval"
  E_new_machine :: "pyval list \<Rightarrow> pyval \<Rightarrow> bool \<Rightarrow> TlSession \<Rightarrow> pyexc + (pyval \<times> TlSession)"
  E_run :: "pyval \<Rightarrow> TlSession \<Rightarrow> pyexc option \<times> TlSession"
  E_fixed_timeout :: "pyexc + int"
  E_new_session :: TlSession
  E_views :: "view list"
  E_clock :: "real list"

text \<open>The names bound at module level of \<^verbatim>\<open>awslambda.py\<close>: imports, constants, classes and functions.\<close>

definition awslambda_module_names :: "string list" where
  "awslambda_module_names = [''json'', ''logging'', ''os'', ''time'', ''boto3'', ''botocore'',
     ''tealparser'', ''ddb_controller'', ''db'', ''TlMachine'', ''RESUME_FN_NAME'', ''LOG'',
     ''get_lambda_client'', ''Invoker'', ''success'', ''fail'', ''resume'', ''new_apigw'', ''new'',
     ''set_exe'', ''set_session_exe'', ''getoutput_apigw'', ''getoutput'']"

text \<open>
  \<^verbatim>\<open>except C.attr: return r\<close> while exception \<open>exc\<close> propagates: the expression
  \<^verbatim>\<open>C.attr\<close> is evaluated first, which looks the name \<^verbatim>\<open>C\<close> up; only then is
  \<open>exc\<close> matched against the class.
\<close>

definition except_clause :: "string list \<Rightarrow> string \<Rightarrow> string \<Rightarrow> pyexc \<Rightarrow> 'r \<Rightarrow> pyexc + 'r" where
  "except_clause module_names cls attr exc r =
     (case lookup_name module_names cls of
        Inl e \<Rightarrow> Inl e
      | Inr _ \<Rightarrow> if exc_class exc = attr then Inr r else Inl exc)"

text \<open>\<^verbatim>\<open>session.machines[vmid].exception = str(exc)\<close>.\<close>

definition set_exception :: "pyval \<Rightarrow> pyexc \<Rightarrow> TlSession \<Rightarrow> pyexc + TlSession" where
  "set_exception vmid exc s =
     (case py_index (length (ts_machines s)) vmid of
        Inl e \<Rightarrow> Inl e
      | Inr i \<Rightarrow> Inr (s\<lparr>ts_machines :=
                   (ts_machines s)[i := (ts_machines s ! i)\<lparr>t_exception := Some (exc_str exc)\<rparr>]\<rparr>))"


subsection \<open>The handlers\<close>

text \<open>
  A handler returns a response or raises; with it the model returns the session
  object as the handler leaves it (\<open>None\<close> when it holds none). Taking the session
  lock (\<^verbatim>\<open>with lock:\<close>) is taken to succeed. Where the environment's lists of
  views or clock readings are used up while the handler still waits, the result
  is \<open>None\<close>: the handler has not returned.
\<close>

type_synonym outcome = "(pyexc + response) \<times> TlSession option"

text \<open>
  Modelled from the spec: \<^verbatim>\<open>controller.finished\<close> and \<^verbatim>\<open>controller.result\<close> of
  \<^verbatim>\<open>DataController\<close> (\<^verbatim>\<open>controllers/ddb.py\<close> is not among the sources). As in the
  sibling \<^verbatim>\<open>AwsController.finished\<close>, evaluating \<^verbatim>\<open>controller.finished\<close> reloads the
  session, which takes the next view of the environment, and reads its finished
  flag; \<^verbatim>\<open>controller.result\<close> reads the result of the session as last reloaded.
\<close>

definition controller_finished :: "view list \<Rightarrow> (view \<times> view list) option" where
  "controller_finished vs = (case vs of [] \<Rightarrow> None | v # rest \<Rightarrow> Some (v, rest))"

definition resume :: "env \<Rightarrow> event \<Rightarrow> store \<Rightarrow> outcome option" where
  "resume E event db =
     (case dict_item event ''session_id'' of
        Inl e \<Rightarrow> Some (Inl e, None)
      | Inr session_id \<Rightarrow>
     (case dict_item event ''vmid'' of
        Inl e \<Rightarrow> Some (Inl e, None)
      | Inr vmid \<Rightarrow>
     (case Session_get db session_id of
        Inl e \<Rightarrow> Some (Inl e, None)
      | Inr session \<Rightarrow>
     (case E_run E vmid session of
        (Some exc, s1) \<Rightarrow>
          if is_Exception exc then
            (case set_exception vmid exc s1 of
               Inl e \<Rightarrow> Some (Inl e, Some s1)
             | Inr s2 \<Rightarrow> Some (Inl exc, Some s2))
          else Some (Inl exc, Some s1)
      | (None, s1) \<Rightarrow>
          (case controller_finished (E_views E) of
             None \<Rightarrow> None
           | Some (v, _) \<Rightarrow>
               Some (Inr (success [(''session_id'', session_id), (''vmid'', vmid),
                                   (''finished'', PBool (v_finished v)),
                                   (''result'', v_result v)]),
                     Some s1))))))"

text \<open>The blocks of \<^verbatim>\<open>new\<close>, in the order of the source.\<close>

datatype 'a flow = Raise pyexc | Return response | Continue 'a

text \<open>Lines 137 to 149: \<^verbatim>\<open>if code:\<close> compile, then store and save the executable.\<close>

definition new_code :: "env \<Rightarrow> pyval \<Rightarrow> TlSession \<Rightarrow> unit flow \<times> TlSession" where
  "new_code E code session =
     (if \<not> truthy code then (Continue (), session)
      else case (case E_evaluate_toplevel E code of
                   Inl e \<Rightarrow> Inl e
                 | Inr toplevel \<Rightarrow> E_make_exe E toplevel) of
          Inl exc \<Rightarrow>
            if is_Exception exc
            then (Return (fail (''Error compiling code:'' @ [CHR 0x0A] @ exc_str exc) []), session)
            else (Raise exc, session)
        | Inr exe \<Rightarrow>
            (case (case E_serialise E exe of
                     Inl e \<Rightarrow> (Some e, session)
                   | Inr bytes \<Rightarrow>
                       (E_save E (session\<lparr>ts_executable := Some bytes\<rparr>),
                        session\<lparr>ts_executable := Some bytes\<rparr>)) of
               (Some exc, s') \<Rightarrow>
                 (case except_clause awslambda_module_names ''Session'' ''UpdateError'' exc
                         (fail ''Error saving code'' []) of
                    Inl e \<Rightarrow> (Raise e, s')
                  | Inr r \<Rightarrow> (Return r, s'))
             | (None, s') \<Rightarrow> (Continue (), s')))"

text \<open>Lines 151 to 154: \<^verbatim>\<open>[tealparser.read_exp(arg) for arg in args]\<close> under a bare \<^verbatim>\<open>except\<close>.\<close>

fun read_all :: "(pyval \<Rightarrow> pyexc + pyval) \<Rightarrow> pyval list \<Rightarrow> pyexc + pyval list" where
  "read_all read_exp [] = Inr []"
| "read_all read_exp (arg # rest) =
     (case read_exp arg of
        Inl e \<Rightarrow> Inl e
      | Inr v \<Rightarrow> (case read_all read_exp rest of Inl e \<Rightarrow> Inl e | Inr vs \<Rightarrow> Inr (v # vs)))"

definition new_args :: "env \<Rightarrow> pyval \<Rightarrow> pyval list flow" where
  "new_args E args =
     (case (case py_iter args of Inl e \<Rightarrow> Inl e | Inr xs \<Rightarrow> read_all (E_read_exp E) xs) of
        Inl _ \<Rightarrow> Return (fail ''Could not parse args'' [])
      | Inr vs \<Rightarrow> Continue vs)"

text \<open>\<^verbatim>\<open>time.sleep(check_period)\<close>: the time that passes shows in the next clock reading.\<close>

definition sleep :: "pyval \<Rightarrow> pyexc option" where
  "sleep secs =
     (case number secs of
        Inl e \<Rightarrow> Some e
      | Inr x \<Rightarrow> if x < 0 then Some ValueError else None)"

text \<open>
  Lines 170 to 173, the polling loop. Each turn evaluates \<^verbatim>\<open>controller.finished\<close>
  (the next view), sleeps, reads the clock and compares. The result tells whether
  the loop left by the timeout, and returns the views not yet used.
\<close>

fun wait_loop ::
  "pyval \<Rightarrow> pyval \<Rightarrow> real \<Rightarrow> view list \<Rightarrow> real list \<Rightarrow> (pyexc + (bool \<times> view list)) option" where
  "wait_loop check_period timeout start_time [] clock = None"
| "wait_loop check_period timeout start_time (v # vs) clock =
     (if v_finished v then Some (Inr (False, vs))
      else case sleep check_period of
          Some e \<Rightarrow> Some (Inl e)
        | None \<Rightarrow>
            (case clock of
               [] \<Rightarrow> None
             | now # clock' \<Rightarrow>
                 (case number timeout of
                    Inl e \<Rightarrow> Some (Inl e)
                  | Inr t \<Rightarrow>
                      if now - start_time > t then Some (Inr (True, vs))
                      else wait_loop check_period timeout start_time vs clock')))"

text \<open>Lines 168 to 180: the wait and the final response.\<close>

definition new_wait ::
  "env \<Rightarrow> pyval \<Rightarrow> pyval \<Rightarrow> pyval \<Rightarrow> pyval \<Rightarrow> pyval \<Rightarrow> (pyexc + response) option" where
  "new_wait E wait_for_finish check_period timeout session_id vmid =
     (case (if truthy wait_for_finish then
              (case E_clock E of
                 [] \<Rightarrow> None
               | start_time # clock \<Rightarrow> wait_loop check_period timeout start_time (E_views E) clock)
            else Some (Inr (False, E_views E))) of
        None \<Rightarrow> None
      | Some (Inl e) \<Rightarrow> Some (Inl e)
      | Some (Inr (timed_out, vs)) \<Rightarrow>
          if timed_out
          then Some (Inr (fail ''Timeout waiting for finish'' [(''session_id'', session_id)]))
          else (case controller_finished vs of
                  None \<Rightarrow> None
                | Some (v, _) \<Rightarrow>
                    Some (Inr (success [(''session_id'', session_id), (''vmid'', vmid),
                                        (''finished'', PBool (v_finished v)),
                                        (''result'', v_result v)]))))"

text \<open>Line 133: \<^verbatim>\<open>timeout if timeout else int(os.getenv("FIXED_TEAL_TIMEOUT", 5))\<close>.\<close>

definition new_timeout :: "env \<Rightarrow> pyval \<Rightarrow> pyexc + pyval" where
  "new_timeout E timeout0 =
     (if truthy timeout0 then Inr timeout0
      else case E_fixed_timeout E of Inl e \<Rightarrow> Inl e | Inr n \<Rightarrow> Inr (PInt n))"

definition new :: "env \<Rightarrow> event \<Rightarrow> outcome option" where
  "new E event =
     (let function = dict_get event ''function'' (PStr ''main'');
          args = dict_get event ''args'' (PList []);
          check_period = dict_get event ''check_period'' (PInt 1);
          wait_for_finish = dict_get event ''wait_for_finish'' (PBool True);
          code = dict_get event ''code'' PNone;
          timeout0 = dict_get event ''timeout'' PNone
      in case new_timeout E timeout0 of
           Inl e \<Rightarrow> Some (Inl e, None)
         | Inr timeout \<Rightarrow>
        (case new_code E code (E_new_session E) of
           (Raise e, s) \<Rightarrow> Some (Inl e, Some s)
         | (Return r, s) \<Rightarrow> Some (Inr r, Some s)
         | (Continue _, s) \<Rightarrow>
        (case new_args E args of
           Raise e \<Rightarrow> Some (Inl e, Some s)
         | Return r \<Rightarrow> Some (Inr r, Some s)
         | Continue args' \<Rightarrow>
        (case E_new_machine E args' function True s of
           Inl e \<Rightarrow> Some (Inl e, Some s)
         | Inr (vmid, s1) \<Rightarrow>
        (case E_run E vmid s1 of
           (Some exc, s2) \<Rightarrow>
             if is_Exception exc then
               (case set_exception vmid exc s2 of
                  Inl e \<Rightarrow> Some (Inl e, Some s2)
                | Inr s3 \<Rightarrow>
                    Some (Inr (fail ''Runtime error'' [(''session_id'', PStr (ts_session_id s3))]),
                          Some s3))
             else Some (Inl exc, Some s2)
         | (None, s2) \<Rightarrow>
             (case new_wait E wait_for_finish check_period timeout
                     (PStr (ts_session_id s2)) vmid of
                None \<Rightarrow> None
              | Some r \<Rightarrow> Some (r, Some s2)))))))"

definition msg_not_found :: string where
  "msg_not_found = ''Couldn'' @ quote @ ''t find that session''"

definition set_session_exe :: "env \<Rightarrow> event \<Rightarrow> store \<Rightarrow> outcome" where
  "set_session_exe E event db =
     (let session_id = dict_get event ''session_id'' PNone;
          content = dict_get event ''content'' PNone
      in if \<not> truthy content then (Inr (fail ''No Teal code'' []), None)
         else if \<not> truthy session_id then (Inr (fail ''No session ID'' []), None)
         else case Session_get db session_id of
             Inl exc \<Rightarrow>
               (case except_clause awslambda_module_names ''Session'' ''DoesNotExist'' exc
                       (fail msg_not_found []) of
                  Inl e \<Rightarrow> (Inl e, None)
                | Inr r \<Rightarrow> (Inr r, None))
           | Inr session \<Rightarrow>
               (case (case E_evaluate_toplevel E content of
                        Inl e \<Rightarrow> Inl e
                      | Inr toplevel \<Rightarrow> E_make_exe E toplevel) of
                  Inl _ \<Rightarrow> (Inr (fail ''Error compiling code'' []), Some session)
                | Inr exe \<Rightarrow>
                    (case (case E_serialise E exe of
                             Inl e \<Rightarrow> (Some e, session)
                           | Inr bytes \<Rightarrow>
                               (E_save E (session\<lparr>ts_executable := Some bytes\<rparr>),
                                session\<lparr>ts_executable := Some bytes\<rparr>)) of
                       (Some exc, s') \<Rightarrow>
                         (case except_clause awslambda_module_names ''Session'' ''UpdateError'' exc
                                 (fail ''Error saving code'' []) of
                            Inl e \<Rightarrow> (Inl e, Some s')
                          | Inr r \<Rightarrow> (Inr r, Some s'))
                     | (None, s') \<Rightarrow>
                         (Inr (success [(''message'', PStr ''Executable set successfully'')]),
                          Some s'))))"

definition getoutput :: "event \<Rightarrow> store \<Rightarrow> outcome" where
  "getoutput event db =
     (let session_id = dict_get event ''session_id'' PNone
      in if \<not> truthy session_id then (Inr (fail ''No session ID'' []), None)
         else case Session_get db session_id of
             Inl exc \<Rightarrow>
               (case except_clause awslambda_module_names ''Session'' ''DoesNotExist'' exc
                       (fail msg_not_found []) of
                  Inl e \<Rightarrow> (Inl e, None)
                | Inr r \<Rightarrow> (Inr r, None))
           | Inr session \<Rightarrow>
               (let output = map (\<lambda>m. PStr (t_stdout m)) (ts_machines session);
                    exceptions = map (\<lambda>m. case t_exception m of None \<Rightarrow> PNone | Some e \<Rightarrow> PStr e)
                                     (ts_machines session)
                in (Inr (success [(''output'', PList output), (''exceptions'', PList exceptions),
                                  (''events'', PList [])]),
                    Some session)))"


section \<open>Concrete environments and sessions\<close>

text \<open>The inputs at which the theorems below are evaluated.\<close>

definition E0 :: env where
  "E0 = \<lparr>E_evaluate_toplevel = (\<lambda>c. Inr c),
         E_make_exe = (\<lambda>t. Inr t),
         E_serialise = (\<lambda>e. Inr ''bytes''),
         E_save = (\<lambda>s. None),
         E_read_exp = (\<lambda>a. Inr a),
         E_new_machine = (\<lambda>args fn top s. Inr (PInt (int (length (ts_machines s))),
            s\<lparr>ts_machines := ts_machines s @
                 [\<lparr>t_state = \<lparr>st_ip = 0, st_ds = args, st_stopped = True\<rparr>,
                   t_stdout = [], t_exception = None\<rparr>]\<rparr>)),
         E_run = (\<lambda>vmid s. (if vmid = PInt 0 then Some (PyExc ''ZeroDivisionError'' ''division by zero'') else None, s)),
         E_fixed_timeout = Inr 5,
         E_new_session = \<lparr>ts_session_id = ''s1'', ts_executable = None, ts_machines = [],
                          ts_futures = [], ts_finished = False, ts_result = PNone\<rparr>,
         E_views = [\<lparr>v_finished = False, v_result = PNone\<rparr>,
                    \<lparr>v_finished = False, v_result = PNone\<rparr>,
                    \<lparr>v_finished = True, v_result = PInt 3\<rparr>],
         E_clock = [0, 1, 7]\<rparr>"

definition sess0 :: TlSession where
  "sess0 = \<lparr>ts_session_id = ''s1'', ts_executable = None,
            ts_machines = [\<lparr>t_state = \<lparr>st_ip = 0, st_ds = [], st_stopped = True\<rparr>,
                             t_stdout = ''hello'', t_exception = None\<rparr>,
                           \<lparr>t_state = \<lparr>st_ip = 4, st_ds = [PInt 1], st_stopped = True\<rparr>,
                             t_stdout = [], t_exception = Some ''boom''\<rparr>],
            ts_futures = [], ts_finished = False, ts_result = PNone\<rparr>"

definition refusing_client :: lambda_client where
  "refusing_client = (\<lambda>_. \<lparr>StatusCode = 500, FunctionError = None, PayloadRead = ''throttled''\<rparr>)"

definition E_save_fails :: env where
  "E_save_fails = E0\<lparr>E_save := (\<lambda>s. Some (PyExc ''UpdateError'' ''cannot save''))\<rparr>"










section \<open>Properties of the c9c AWS runtime\<close>

lemma lookup_Session_aws: "lookup_name aws_module_names ''Session'' = Inl (NameError ''Session'')"
  by (simp add: lookup_name_def aws_module_names_def py_builtins_def)

text \<open>
  Claim C9. In \<^verbatim>\<open>aws.py\<close> the name \<^verbatim>\<open>Session\<close> is neither imported nor defined, so
  \<^verbatim>\<open>run_existing\<close> raises \<^verbatim>\<open>NameError\<close> at \<^verbatim>\<open>Session.get\<close> for every input, whatever
  the rest of its body would do: no session is loaded and no machine is run.
\<close>

theorem run_existing_NameError:
  "run_existing rest name executable session_id machine_id do_probe w = Inl (NameError ''Session'')"
  by (simp add: run_existing_def lookup_Session_aws)



subsection \<open>Waiting on a future and resolving it\<close>

text \<open>
  In \<^verbatim>\<open>aws.py\<close> itself the name \<^verbatim>\<open>chain_resolve\<close> is not bound (line 64 imports
  \<^verbatim>\<open>C9Machine\<close>, \<^verbatim>\<open>ChainedFuture\<close>, \<^verbatim>\<open>Controller\<close> and \<^verbatim>\<open>Probe\<close> only), so
  \<^verbatim>\<open>set_machine_result\<close> raises before it resolves anything. The lemmas after this one
  are about \<^verbatim>\<open>chain_resolve\<close> called directly.
\<close>

lemma set_machine_result_NameError:
  "m = this_machine self \<Longrightarrow> set_machine_result client self m v w = Inl (NameError ''chain_resolve'')"
  by (simp add: set_machine_result_def lookup_name_def aws_module_names_def py_builtins_def)
















section \<open>Properties of the Lambda entry points and of dispatch\<close>





text \<open>
  Claim C7 (the code does otherwise). A request that the service answers with a
  status other than 202 makes \<^verbatim>\<open>Invoker.invoke\<close> and \<^verbatim>\<open>LambdaRunner.run\<close> raise at
  once: exactly one request has been made, and none follows.
\<close>

theorem invoke_fails_on_first_attempt:
  "Invoker_invoke refusing_client ''resume'' (PStr ''s1'') (PInt 1) [] =
     (Some (py_Exception ''Invoke lambda resume failed throttled''),
      [\<lparr>FunctionName = ''resume'', InvocationType = ''Event'',
        Payload = [(''session_id'', PStr ''s1''), (''vmid'', PInt 1)]\<rparr>])
   \<and> LambdaRunner_run refusing_client \<lparr>runner_ref = 0, fn_name = ''c9run''\<rparr> 0 ''exe'' PNone (PStr ''s1'')
       (PInt 1) (PBool False) [] =
     (Some (py_Exception ''Invoke lambda failed throttled''),
      [\<lparr>FunctionName = ''c9run'', InvocationType = ''Event'',
        Payload = [(''lambda_name'', PStr ''c9run''), (''executable_name'', PStr ''exe''),
                   (''searchpath'', PNone), (''session_id'', PStr ''s1''),
                   (''machine_id'', PInt 1), (''do_probe'', PBool False)]\<rparr>])"
  by (simp add: Invoker_invoke_def LambdaRunner_run_def refusing_client_def Let_def)

theorem invoke_fails_witness:
  "fst (Invoker_invoke refusing_client ''resume'' (PStr ''s1'') (PInt 1) [])
     = Some (py_Exception ''Invoke lambda resume failed throttled'')
   \<and> length (snd (Invoker_invoke refusing_client ''resume'' (PStr ''s1'') (PInt 1) [])) = 1
   \<and> length (snd (LambdaRunner_run refusing_client \<lparr>runner_ref = 0, fn_name = ''c9run''\<rparr> 0 ''exe''
                     PNone (PStr ''s1'') (PInt 1) (PBool False) [])) = 1"
  using invoke_fails_on_first_attempt by simp


text \<open>Whatever the service answers, a call makes one request and no more.\<close>

lemma invoke_makes_one_request:
  "length (snd (Invoker_invoke client fn sid vmid reqs)) = Suc (length reqs)"
  "runner = runner_ref self
   \<Longrightarrow> length (snd (LambdaRunner_run client self runner exe sp sid mid dp reqs)) = Suc (length reqs)"
  by (simp_all add: Invoker_invoke_def LambdaRunner_run_def Let_def)

text \<open>
  Claim C5 (the code does otherwise). With code and a session id given,
  \<^verbatim>\<open>set_session_exe\<close> raises \<^verbatim>\<open>NameError\<close> when the session does not exist, and
  when saving raises \<^verbatim>\<open>UpdateError\<close>; neither failure response is returned.
\<close>

theorem set_session_exe_NameError_at_missing_session:
  "set_session_exe E [''session_id'' \<mapsto> PStr ''nope'', ''content'' \<mapsto> PStr ''main() = 1''] Map.empty
     = (Inl (NameError ''Session''), None)
   \<and> set_session_exe E_save_fails
        [''session_id'' \<mapsto> PStr ''s1'', ''content'' \<mapsto> PStr ''main() = 1''] [''s1'' \<mapsto> sess0]
     = (Inl (NameError ''Session''), Some (sess0\<lparr>ts_executable := Some ''bytes''\<rparr>))"
  by (simp add: set_session_exe_def dict_get_def except_clause_def lookup_name_def
        awslambda_module_names_def py_builtins_def E_save_fails_def E0_def Let_def)

theorem set_session_exe_NameError_witness:
  "fst (set_session_exe E0 [''session_id'' \<mapsto> PStr ''nope'', ''content'' \<mapsto> PStr ''main() = 1'']
          Map.empty) = Inl (NameError ''Session'')
   \<and> fst (set_session_exe E_save_fails
          [''session_id'' \<mapsto> PStr ''s1'', ''content'' \<mapsto> PStr ''main() = 1''] [''s1'' \<mapsto> sess0])
       = Inl (NameError ''Session'')"
  using set_session_exe_NameError_at_missing_session [of E0] by simp


lemma lookup_Session_awslambda:
  "lookup_name awslambda_module_names ''Session'' = Inl (NameError ''Session'')"
  by (simp add: lookup_name_def awslambda_module_names_def py_builtins_def)

lemma except_Session:
  "except_clause awslambda_module_names ''Session'' attr exc r = Inl (NameError ''Session'')"
  by (simp add: except_clause_def lookup_Session_awslambda)

lemma set_session_exe_never:
  "fst (set_session_exe E event db) \<noteq> Inr (fail msg_not_found bd)"
  "fst (set_session_exe E event db) \<noteq> Inr (fail ''Error saving code'' bd)"
  by (auto simp: set_session_exe_def Let_def except_Session fail_def success_def msg_not_found_def
      split: sum.splits option.splits prod.splits)

lemma getoutput_never:
  "fst (getoutput event db) \<noteq> Inr (fail msg_not_found bd)"
  by (auto simp: getoutput_def Let_def except_Session fail_def success_def msg_not_found_def
      split: sum.splits option.splits prod.splits)

lemma new_code_never:
  "fst (new_code E code s) \<noteq> Return (fail ''Error saving code'' bd)"
  by (auto simp: new_code_def Let_def except_Session fail_def
      split: sum.splits option.splits prod.splits)

lemma new_args_never:
  "new_args E args \<noteq> Return (fail ''Error saving code'' bd)"
  by (auto simp: new_args_def fail_def split: sum.splits)

lemma new_wait_never:
  "new_wait E wff cp t sid vmid \<noteq> Some (Inr (fail ''Error saving code'' bd))"
  by (auto simp: new_wait_def fail_def success_def controller_finished_def
      split: sum.splits option.splits prod.splits list.splits if_splits)

lemma new_never:
  "new E event \<noteq> Some (Inr (fail ''Error saving code'' bd), st)"
proof -
  have a: "\<And>s. new_code E (dict_get event ''code'' PNone) (E_new_session E) \<noteq> (Return (fail ''Error saving code'' bd), s)"
    using new_code_never [of E "dict_get event ''code'' PNone" "E_new_session E" bd] by auto
  show ?thesis
    unfolding new_def Let_def
    using a new_args_never [of E _ bd] new_wait_never [of E _ _ _ _ _ bd]
    by (auto simp: fail_def split: sum.splits option.splits prod.splits flow.splits if_splits)
qed

text \<open>
  Claim C10. In \<^verbatim>\<open>awslambda.py\<close> the name \<^verbatim>\<open>Session\<close> is not bound (only
  \<^verbatim>\<open>ddb_model as db\<close> is imported). So whenever \<^verbatim>\<open>db.Session.get\<close> raises in
  \<^verbatim>\<open>set_session_exe\<close> or in \<^verbatim>\<open>getoutput\<close>, and whenever \<^verbatim>\<open>session.save\<close> raises in
  \<^verbatim>\<open>new\<close>, the handler raises \<^verbatim>\<open>NameError\<close> from its \<^verbatim>\<open>except\<close> clause; and no call
  of these handlers returns the failure response "Couldn't find that session" or
  "Error saving code".
\<close>

theorem Session_unbound_in_handlers:
  "(truthy (dict_get event ''content'' PNone) \<and> truthy (dict_get event ''session_id'' PNone)
      \<and> Session_get db (dict_get event ''session_id'' PNone) = Inl exc
     \<longrightarrow> set_session_exe E event db = (Inl (NameError ''Session''), None))
 \<and> (truthy (dict_get event ''session_id'' PNone)
      \<and> Session_get db (dict_get event ''session_id'' PNone) = Inl exc
     \<longrightarrow> getoutput event db = (Inl (NameError ''Session''), None))
 \<and> (truthy (dict_get event ''code'' PNone) \<and> E_fixed_timeout E = Inr n
      \<and> E_evaluate_toplevel E (dict_get event ''code'' PNone) = Inr toplevel
      \<and> E_make_exe E toplevel = Inr exe \<and> E_serialise E exe = Inr bytes
      \<and> E_save E ((E_new_session E)\<lparr>ts_executable := Some bytes\<rparr>) = Some exc
     \<longrightarrow> new E event =
           Some (Inl (NameError ''Session''), Some ((E_new_session E)\<lparr>ts_executable := Some bytes\<rparr>)))
 \<and> fst (set_session_exe E event db) \<noteq> Inr (fail msg_not_found bd)
 \<and> fst (set_session_exe E event db) \<noteq> Inr (fail ''Error saving code'' bd)
 \<and> fst (getoutput event db) \<noteq> Inr (fail msg_not_found bd)
 \<and> new E event \<noteq> Some (Inr (fail ''Error saving code'' bd), st)"
proof -
  have a: "truthy (dict_get event ''content'' PNone) \<and> truthy (dict_get event ''session_id'' PNone)
      \<and> Session_get db (dict_get event ''session_id'' PNone) = Inl exc
     \<longrightarrow> set_session_exe E event db = (Inl (NameError ''Session''), None)"
    by (simp add: set_session_exe_def Let_def except_Session)
  have b: "truthy (dict_get event ''session_id'' PNone)
      \<and> Session_get db (dict_get event ''session_id'' PNone) = Inl exc
     \<longrightarrow> getoutput event db = (Inl (NameError ''Session''), None)"
    by (simp add: getoutput_def Let_def except_Session)
  have c: "truthy (dict_get event ''code'' PNone) \<and> E_fixed_timeout E = Inr n
      \<and> E_evaluate_toplevel E (dict_get event ''code'' PNone) = Inr toplevel
      \<and> E_make_exe E toplevel = Inr exe \<and> E_serialise E exe = Inr bytes
      \<and> E_save E ((E_new_session E)\<lparr>ts_executable := Some bytes\<rparr>) = Some exc
     \<longrightarrow> new E event =
           Some (Inl (NameError ''Session''), Some ((E_new_session E)\<lparr>ts_executable := Some bytes\<rparr>))"
    by (simp add: new_def new_timeout_def new_code_def Let_def except_Session)
  show ?thesis
    using a b c set_session_exe_never [of E event db bd] getoutput_never [of event db bd]
      new_never [of E event bd st]
    by blast
qed

theorem Session_unbound_witness:
  "set_session_exe E0 [''session_id'' \<mapsto> PStr ''nope'', ''content'' \<mapsto> PStr ''f''] [''s1'' \<mapsto> sess0]
     = (Inl (NameError ''Session''), None)
   \<and> getoutput [''session_id'' \<mapsto> PStr ''nope''] [''s1'' \<mapsto> sess0] = (Inl (NameError ''Session''), None)
   \<and> new E_save_fails [''code'' \<mapsto> PStr ''f''] =
       Some (Inl (NameError ''Session''), Some ((E_new_session E_save_fails)\<lparr>ts_executable := Some ''bytes''\<rparr>))"
  using Session_unbound_in_handlers
      [of "[''session_id'' \<mapsto> PStr ''nope'', ''content'' \<mapsto> PStr ''f'']" "[''s1'' \<mapsto> sess0]"
          DoesNotExist E0]
    Session_unbound_in_handlers
      [of "[''session_id'' \<mapsto> PStr ''nope'']" "[''s1'' \<mapsto> sess0]" DoesNotExist]
    Session_unbound_in_handlers
      [of "[''code'' \<mapsto> PStr ''f'']" _ "PyExc ''UpdateError'' ''cannot save''" E_save_fails 5
          "PStr ''f''" "PStr ''f''" "''bytes''"]
  by (simp add: dict_get_def E_save_fails_def E0_def)











end
